theory Spec2Isabelle
  imports Complex_Main
begin

section \<open>Python errors, effects and the result of a run\<close>

text \<open>
  The script \<^verbatim>\<open>scripts/fetch_steering_vectors.py\<close> is embedded function by function.
  Every \<^verbatim>\<open>raise\<close>, failed \<^verbatim>\<open>assert\<close> and failed name lookup is a value of
  \<open>py_error\<close>; the text carried by \<open>AssertionError\<close> is the asserted expression, so the two
  assertions of the script stay apart. \<open>UnboundLocalError\<close> is Python's subclass of
  \<open>NameError\<close> for a local variable read before it is assigned; both are failures to
  resolve a name.
\<close>

datatype py_error =
    ValueError string
  | AssertionError string
  | UnboundLocalError string
  | NameError string
  | FileNotFoundError string
  | KeyError string
  | TypeError string
  | IndexError string
  | RuntimeError string

text \<open>
  The calls that reach outside the function are recorded in the order in which they happen:
  a run is the list of these events together with the error raised or the value returned.
\<close>

datatype event =
    ParseFasta string
  | ModelEval
  | Print string
  | Forward nat
  | CreateParser
  | AddArgument string
  | ParseArgs
  | GetTokenizer
  | LoadModel string
  | MakeDirs string
  | Save string

type_synonym 'a run = "event list \<times> (py_error + 'a)"

definition returnE :: "'a \<Rightarrow> 'a run" where
  "returnE x = ([], Inr x)"

definition raiseE :: "py_error \<Rightarrow> 'a run" where
  "raiseE e = ([], Inl e)"

definition emit :: "event \<Rightarrow> unit run" where
  "emit ev = ([ev], Inr ())"

definition bindE :: "'a run \<Rightarrow> ('a \<Rightarrow> 'b run) \<Rightarrow> 'b run" where
  "bindE m f =
     (case m of
        (tr, Inl e) \<Rightarrow> (tr, Inl e)
      | (tr, Inr x) \<Rightarrow> (case f x of (tr', r) \<Rightarrow> (tr @ tr', r)))"

section \<open>Strings\<close>

text \<open>\<^verbatim>\<open>str.lower()\<close> on the ASCII letters, which is all the four mode names need.\<close>

definition lower_char :: "char \<Rightarrow> char" where
  "lower_char c =
     (case map_of (zip ''ABCDEFGHIJKLMNOPQRSTUVWXYZ'' ''abcdefghijklmnopqrstuvwxyz'') c of
        Some d \<Rightarrow> d
      | None \<Rightarrow> c)"

definition lower :: "string \<Rightarrow> string" where
  "lower s = map lower_char s"

text \<open>\<^verbatim>\<open>" ".join(tokens)\<close>\<close>

fun join_spaces :: "string list \<Rightarrow> string" where
  "join_spaces [] = []"
| "join_spaces [t] = t"
| "join_spaces (t # u # ts) = t @ '' '' @ join_spaces (u # ts)"

section \<open>Tensors as nested lists\<close>

text \<open>
  A tensor is the nested list of its entries, outermost dimension first. Activations are
  real numbers here: the rounding of the 32-bit floats of the framework is not modelled.
\<close>

type_synonym input_ids = "int list list"
type_synonym tensor3 = "real list list list"
type_synonym tensor4 = "real list list list list"

definition shape2_is :: "'a list list \<Rightarrow> nat \<Rightarrow> nat \<Rightarrow> bool" where
  "shape2_is t a b = (length t = a \<and> list_all (\<lambda>r. length r = b) t)"

definition shape3_is :: "'a list list list \<Rightarrow> nat \<Rightarrow> nat \<Rightarrow> nat \<Rightarrow> bool" where
  "shape3_is t a b c = (length t = a \<and> list_all (\<lambda>m. shape2_is m b c) t)"

definition shape4_is :: "'a list list list list \<Rightarrow> nat \<Rightarrow> nat \<Rightarrow> nat \<Rightarrow> nat \<Rightarrow> bool" where
  "shape4_is t a b c d = (length t = a \<and> list_all (\<lambda>s. shape3_is s b c d) t)"

text \<open>\<^verbatim>\<open>t.size(1)\<close>: a tensor without rows has a single dimension, and asking for the second fails.\<close>

definition size1 :: "'a list list \<Rightarrow> nat run" where
  "size1 t = (case t of [] \<Rightarrow> raiseE (IndexError ''Dimension out of range'')
                      | r # rs \<Rightarrow> returnE (length r))"

text \<open>\<^verbatim>\<open>range(0, n, step)\<close> and the slice \<^verbatim>\<open>t[i:j]\<close>.\<close>

definition range_step :: "nat \<Rightarrow> nat \<Rightarrow> nat list" where
  "range_step n step = map (\<lambda>k. k * step) [0..<(n + step - 1) div step]"

definition slice :: "'a list \<Rightarrow> nat \<Rightarrow> nat \<Rightarrow> 'a list" where
  "slice xs i j = take (j - i) (drop i xs)"

text \<open>
  \<^verbatim>\<open>torch.stack(ts, dim=0)\<close> of equally shaped tensors is the list of them and fails on no
  tensors; \<^verbatim>\<open>torch.cat(ts, dim=1)\<close> joins, layer by layer, the second dimension of the
  tensors and fails on no tensors. The tensors given to both come from one model at one
  padded length, so their other sizes agree.
\<close>

definition torch_stack :: "tensor3 list \<Rightarrow> tensor4 run" where
  "torch_stack ts =
     (if ts = [] then raiseE (RuntimeError ''stack expects a non-empty TensorList'')
      else returnE ts)"

definition torch_cat1 :: "tensor4 list \<Rightarrow> tensor4 run" where
  "torch_cat1 ts =
     (case ts of
        [] \<Rightarrow> raiseE (RuntimeError ''torch.cat(): expected a non-empty list of Tensors'')
      | t # rest \<Rightarrow> returnE (map (\<lambda>l. concat (map (\<lambda>s. s ! l) ts)) [0..<length t]))"

text \<open>\<^verbatim>\<open>a.mean(axis=1, keepdims=True)\<close>: per layer, the entry-wise mean of its matrices.\<close>

definition add_mat :: "real list list \<Rightarrow> real list list \<Rightarrow> real list list" where
  "add_mat a b = map2 (map2 (+)) a b"

definition mean_mats :: "real list list list \<Rightarrow> real list list" where
  "mean_mats ms =
     (case ms of [] \<Rightarrow> []
      | m # rest \<Rightarrow> map (map (\<lambda>x. x / real (length ms))) (foldl add_mat m rest))"

definition mean_axis1 :: "tensor4 \<Rightarrow> tensor4" where
  "mean_axis1 t = map (\<lambda>layer. [mean_mats layer]) t"

text \<open>Entry-wise difference and negation of arrays of one shape.\<close>

definition sub4 :: "tensor4 \<Rightarrow> tensor4 \<Rightarrow> tensor4" where
  "sub4 a b = map2 (map2 (map2 (map2 (-)))) a b"

definition neg4 :: "tensor4 \<Rightarrow> tensor4" where
  "neg4 a = map (map (map (map uminus))) a"

section \<open>The score table\<close>

text \<open>
  The data frame \<^verbatim>\<open>df\<close> of the score-table modes: one row per sequence, with the columns
  the function reads and the two it writes.
\<close>

record row =
  ID :: string
  MFE_normalized :: real
  CAI :: real
  log_CAI :: real
  score :: real
  seq_length :: nat

type_synonym table = "row list"

definition column :: "string \<Rightarrow> row \<Rightarrow> real" where
  "column value_col r =
     (if value_col = ''MFE_normalized'' then MFE_normalized r
      else if value_col = ''CAI'' then CAI r
      else score r)"

text \<open>Reading a local variable: unbound until its first assignment.\<close>

definition load_fast :: "string \<Rightarrow> 'a option \<Rightarrow> 'a run" where
  "load_fast name v = (case v of None \<Rightarrow> raiseE (UnboundLocalError name) | Some x \<Rightarrow> returnE x)"

text \<open>\<^verbatim>\<open>sequences[x]\<close> on the optional dictionary argument.\<close>

definition subscript :: "(string \<rightharpoonup> string) option \<Rightarrow> string \<Rightarrow> string run" where
  "subscript sequences k =
     (case sequences of
        None \<Rightarrow> raiseE (TypeError '''NoneType' object is not subscriptable'')
      | Some d \<Rightarrow> (case d k of None \<Rightarrow> raiseE (KeyError k) | Some s \<Rightarrow> returnE s))"

fun mapE :: "('a \<Rightarrow> 'b run) \<Rightarrow> 'a list \<Rightarrow> 'b list run" where
  "mapE f [] = returnE []"
| "mapE f (x # xs) =
     (case f x of
        (tr, Inl e) \<Rightarrow> (tr, Inl e)
      | (tr, Inr y) \<Rightarrow>
          (case mapE f xs of
             (tr', Inl e) \<Rightarrow> (tr @ tr', Inl e)
           | (tr', Inr ys) \<Rightarrow> (tr @ tr', Inr (y # ys))))"

text \<open>\<^verbatim>\<open>int(x)\<close> truncates towards zero.\<close>

definition py_int :: "real \<Rightarrow> int" where
  "py_int x = (if 0 \<le> x then \<lfloor>x\<rfloor> else \<lceil>x\<rceil>)"

definition nlargest :: "int \<Rightarrow> string \<Rightarrow> table \<Rightarrow> table" where
  "nlargest n value_col df = take (nat n) (sort_key (\<lambda>r. - column value_col r) df)"

definition nsmallest :: "int \<Rightarrow> string \<Rightarrow> table \<Rightarrow> table" where
  "nsmallest n value_col df = take (nat n) (sort_key (\<lambda>r. column value_col r) df)"

section \<open>The outside world\<close>

text \<open>
  The function is handed its collaborators: the pretrained encoder \<open>model\<close>, which returns
  for a batch of token rows the tuple of hidden states (the embedding output first, then
  one tensor per encoder layer); the \<open>tokenizer\<close>, called with
  \<^verbatim>\<open>padding="max_length", truncation=True\<close> and the length to pad to; the imported helper
  \<open>mytok\<close>; and the files, a map from a path to the sequences of the FASTA records stored
  there. The \<^verbatim>\<open>device\<close> argument only says where tensors live and is left out.
\<close>

type_synonym model = "input_ids \<Rightarrow> tensor3 list"
type_synonym tokenizer = "string list \<Rightarrow> nat \<Rightarrow> input_ids"
type_synonym mytok = "string \<Rightarrow> nat \<Rightarrow> nat \<Rightarrow> string list"
type_synonym files = "string \<rightharpoonup> string list"

definition SeqIO_parse :: "files \<Rightarrow> string \<Rightarrow> string list run" where
  "SeqIO_parse fs path =
     bindE (emit (ParseFasta path)) (\<lambda>_.
       case fs path of None \<Rightarrow> raiseE (FileNotFoundError path) | Some recs \<Rightarrow> returnE recs)"

section \<open>encode_sequences\<close>

text \<open>
  Lines 19 to 22. Every sequence goes through \<^verbatim>\<open>mytok(seq, 3, 3)\<close>, the tokens are joined
  with single spaces, and the tokenizer pads or truncates to \<open>max_length\<close>. Its default is
  1024, and the only call of the script passes 1024. The Python parameter \<^verbatim>\<open>lambda_\<close> of
  the next section is written \<open>lambda'\<close>.
\<close>

definition encode_sequences :: "mytok \<Rightarrow> string list \<Rightarrow> tokenizer \<Rightarrow> nat \<Rightarrow> input_ids" where
  "encode_sequences mytok sequences tokenizer max_length =
     (let tokenized_sequences = map (\<lambda>seq. join_spaces (mytok seq 3 3)) sequences
      in tokenizer tokenized_sequences max_length)"

section \<open>fetch_steering_vector\<close>

text \<open>
  The local variables that are not parameters. None of them is bound when the function
  is entered; \<open>None\<close> is "not assigned yet".
\<close>

record frame =
  v_value_col :: "string option"
  v_df :: "table option"
  v_high_fa :: "string list option"
  v_low_fa :: "string list option"

definition entry_frame :: frame where
  "entry_frame = \<lparr>v_value_col = None, v_df = None, v_high_fa = None, v_low_fa = None\<rparr>"

definition set_score :: "real \<Rightarrow> table \<Rightarrow> table" where
  "set_score lambda' df = map (\<lambda>r. r\<lparr>score := - MFE_normalized r + lambda' * log_CAI r\<rparr>) df"

text \<open>Lines 33 to 48: the chain on \<^verbatim>\<open>data_type.lower()\<close>.\<close>

definition choose_mode ::
  "files \<Rightarrow> string \<Rightarrow> real option \<Rightarrow> string option \<Rightarrow> string option \<Rightarrow> frame \<Rightarrow> frame run" where
  "choose_mode fs data_type lambda' high_fa_path low_fa_path fr =
     (if lower data_type = ''mfe'' then returnE (fr\<lparr>v_value_col := Some ''MFE_normalized''\<rparr>)
      else if lower data_type = ''cai'' then returnE (fr\<lparr>v_value_col := Some ''CAI''\<rparr>)
      else if lower data_type = ''mfe_cai'' then
        (case lambda' of
           None \<Rightarrow> raiseE (ValueError ''Must provide 'lambda_' for 'mfe_cai' data type.'')
         | Some l \<Rightarrow>
             bindE (load_fast ''df'' (v_df fr)) (\<lambda>df.
               returnE (fr\<lparr>v_value_col := Some ''score'', v_df := Some (set_score l df)\<rparr>)))
      else if lower data_type = ''fasta'' then
        (case (high_fa_path, low_fa_path) of
           (Some hp, Some lp) \<Rightarrow>
             bindE (SeqIO_parse fs hp) (\<lambda>high_fa.
             bindE (SeqIO_parse fs lp) (\<lambda>low_fa.
               returnE (fr\<lparr>v_high_fa := Some high_fa, v_low_fa := Some low_fa\<rparr>)))
         | _ \<Rightarrow> raiseE (AssertionError ''high_fa_path is not None and low_fa_path is not None''))
      else raiseE (ValueError ''data_type must be 'mfe' or 'cai' or 'mfe_cai' or 'fasta'.''))"

text \<open>Lines 51 to 70: the two groups of sequences.\<close>

definition select_sequences ::
  "string \<Rightarrow> (string \<rightharpoonup> string) option \<Rightarrow> real option \<Rightarrow> int \<Rightarrow> int \<Rightarrow> frame
     \<Rightarrow> (string list \<times> string list) run" where
  "select_sequences data_type sequences percent min_seq_len max_seq_len fr =
     (if lower data_type = ''fasta'' then
        bindE (load_fast ''high_fa'' (v_high_fa fr)) (\<lambda>high_fa.
        bindE (load_fast ''low_fa'' (v_low_fa fr)) (\<lambda>low_fa.
          returnE (high_fa, low_fa)))
      else
        (case percent of
           Some p \<Rightarrow>
             bindE (load_fast ''df'' (v_df fr)) (\<lambda>df0.
             bindE (mapE (\<lambda>r. bindE (subscript sequences (ID r)) (\<lambda>s.
                            returnE (r\<lparr>seq_length := length s\<rparr>))) df0) (\<lambda>df1.
               let df = filter (\<lambda>r. min_seq_len \<le> int (seq_length r)
                                   \<and> int (seq_length r) \<le> max_seq_len) df1;
                   n = py_int (real (length df) * p)
               in
             bindE (load_fast ''value_col'' (v_value_col fr)) (\<lambda>value_col.
             bindE (mapE (\<lambda>r. subscript sequences (ID r)) (nlargest n value_col df)) (\<lambda>top_seqs.
             bindE (mapE (\<lambda>r. subscript sequences (ID r)) (nsmallest n value_col df)) (\<lambda>low_seqs.
               returnE (top_seqs, low_seqs))))))
         | None \<Rightarrow>
             raiseE (ValueError ''Must provide either 'percent' or 'cai_threshold' (only for 'cai').'')))"

text \<open>
  Lines 84 to 95 and 97 to 107, the same loop for either group: a forward pass per batch of
  32 rows, the first hidden state dropped, the rest stacked; then the batches joined along
  the sequence dimension and averaged over it.
\<close>

fun forward_batches :: "model \<Rightarrow> input_ids \<Rightarrow> nat list \<Rightarrow> tensor4 list run" where
  "forward_batches model seqs [] = returnE []"
| "forward_batches model seqs (i # starts) =
     (let hidden_states = model (slice seqs i (i + 32));
          encoder_layer_outputs = tl hidden_states
      in case torch_stack encoder_layer_outputs of
           (tr, Inl e) \<Rightarrow> (Forward i # tr, Inl e)
         | (tr, Inr slab) \<Rightarrow>
             (case forward_batches model seqs starts of
                (tr', Inl e) \<Rightarrow> (Forward i # tr @ tr', Inl e)
              | (tr', Inr slabs) \<Rightarrow> (Forward i # tr @ tr', Inr (slab # slabs))))"

definition layer_means :: "model \<Rightarrow> input_ids \<Rightarrow> tensor4 run" where
  "layer_means model seqs =
     (let batch_size = 32; n = length seqs in
      bindE (forward_batches model seqs (range_step n batch_size)) (\<lambda>steering_vectors.
      bindE (torch_cat1 steering_vectors) (\<lambda>joined.
        returnE (mean_axis1 joined))))"

text \<open>Lines 72 to 109.\<close>

definition compute_difference ::
  "mytok \<Rightarrow> model \<Rightarrow> tokenizer \<Rightarrow> string list \<Rightarrow> string list \<Rightarrow> tensor4 run" where
  "compute_difference mytok model tokenizer top_seqs0 low_seqs0 =
     bindE (emit ModelEval) (\<lambda>_.
       let max_length = 1024;
           top_seqs = encode_sequences mytok top_seqs0 tokenizer max_length;
           low_seqs = encode_sequences mytok low_seqs0 tokenizer max_length
       in
     bindE (size1 top_seqs) (\<lambda>top_len.
     bindE (size1 low_seqs) (\<lambda>low_len.
       if top_len = low_len then
         bindE (emit (Print ''Computing steering vectors...'')) (\<lambda>_.
         bindE (layer_means model top_seqs) (\<lambda>top_steering_vectors.
         bindE (layer_means model low_seqs) (\<lambda>low_steering_vectors.
           returnE (sub4 top_steering_vectors low_steering_vectors))))
       else raiseE (AssertionError ''top_seqs.size(1) == low_seqs.size(1)''))))"

definition fetch_steering_vector ::
  "mytok \<Rightarrow> files \<Rightarrow> string \<Rightarrow> model \<Rightarrow> tokenizer \<Rightarrow> (string \<rightharpoonup> string) option \<Rightarrow> real option
     \<Rightarrow> int \<Rightarrow> int \<Rightarrow> real option \<Rightarrow> string option \<Rightarrow> string option \<Rightarrow> tensor4 run" where
  "fetch_steering_vector mytok fs data_type model tokenizer sequences percent
       min_seq_len max_seq_len lambda' high_fa_path low_fa_path =
     bindE (choose_mode fs data_type lambda' high_fa_path low_fa_path entry_frame) (\<lambda>fr.
     bindE (select_sequences data_type sequences percent min_seq_len max_seq_len fr)
       (\<lambda>(top_seqs, low_seqs).
     bindE (compute_difference mytok model tokenizer top_seqs low_seqs) (\<lambda>steering_vectors.
       returnE (if lower data_type = ''mfe'' then neg4 steering_vectors
                else steering_vectors))))"

section \<open>The script run as a program\<close>

text \<open>
  The names bound in the module when the block under \<^verbatim>\<open>if __name__ == "__main__"\<close> starts:
  those of the import statements of lines 4 to 17 and of the three function definitions.
  A name that is not among them is looked up among the built-in functions.
\<close>

datatype pyobj = Module string | Function string | Class string | Str string | NoneObj

definition module_globals :: "(string \<times> pyobj) list" where
  "module_globals =
     [(''__name__'', Str ''__main__''),
      (''argparse'', Module ''argparse''),
      (''SeqIO'', Module ''Bio.SeqIO''),
      (''sys'', Module ''sys''),
      (''torch'', Module ''torch''),
      (''BertForPreTraining'', Class ''transformers.BertForPreTraining''),
      (''pd'', Module ''pandas''),
      (''np'', Module ''numpy''),
      (''tqdm'', Class ''tqdm.tqdm''),
      (''PeftConfig'', Class ''peft.PeftConfig''),
      (''PeftModel'', Class ''peft.PeftModel''),
      (''load_model'', Function ''finetune_token_cls.load_model''),
      (''os'', Module ''os''),
      (''mytok'', Function ''tokenizer.mytok''),
      (''get_tokenizer'', Function ''tokenizer.get_tokenizer''),
      (''encode_sequences'', Function ''encode_sequences''),
      (''fetch_steering_vector'', Function ''fetch_steering_vector''),
      (''load_data'', Function ''load_data'')]"

definition builtin_names :: "string list" where
  "builtin_names =
     [''abs'', ''aiter'', ''all'', ''anext'', ''any'', ''ascii'', ''bin'', ''bool'',
      ''breakpoint'', ''bytearray'', ''bytes'', ''callable'', ''chr'', ''classmethod'',
      ''compile'', ''complex'', ''delattr'', ''dict'', ''dir'', ''divmod'', ''enumerate'',
      ''eval'', ''exec'', ''filter'', ''float'', ''format'', ''frozenset'', ''getattr'',
      ''globals'', ''hasattr'', ''hash'', ''help'', ''hex'', ''id'', ''input'', ''int'',
      ''isinstance'', ''issubclass'', ''iter'', ''len'', ''list'', ''locals'', ''map'',
      ''max'', ''memoryview'', ''min'', ''next'', ''object'', ''oct'', ''open'', ''ord'',
      ''pow'', ''print'', ''property'', ''range'', ''repr'', ''reversed'', ''round'',
      ''set'', ''setattr'', ''slice'', ''sorted'', ''staticmethod'', ''str'', ''sum'',
      ''super'', ''tuple'', ''type'', ''vars'', ''zip'', ''__import__'']"

definition load_name :: "(string \<times> pyobj) list \<Rightarrow> string \<Rightarrow> pyobj run" where
  "load_name globals name =
     (case map_of globals name of
        Some v \<Rightarrow> returnE v
      | None \<Rightarrow> if name \<in> set builtin_names then returnE (Function name)
                else raiseE (NameError name))"

text \<open>The parsed command line, and what the block is given from outside.\<close>

record cli =
  a_model_path :: string
  a_high_fa_path :: "string option"
  a_low_fa_path :: "string option"
  a_data_type :: string
  a_save_name :: "string option"
  a_save_dir :: string

record world =
  w_mytok :: mytok
  w_files :: files
  w_parse_args :: "string list \<Rightarrow> pyobj \<Rightarrow> cli run"
  w_load_model :: "string \<Rightarrow> (model \<times> tokenizer) run"
  w_exists :: "string \<Rightarrow> bool"

definition save_path :: "string \<Rightarrow> string option \<Rightarrow> string run" where
  "save_path save_dir save_name =
     (case save_name of
        None \<Rightarrow> raiseE (TypeError ''can only concatenate str (not NoneType) to str'')
      | Some nm \<Rightarrow> returnE (save_dir @ ''/'' @ ''steering_vectors_'' @ nm @ ''.npy''))"

text \<open>Lines 125 to 157.\<close>

definition main_block :: "world \<Rightarrow> string list \<Rightarrow> unit run" where
  "main_block w argv =
     bindE (emit CreateParser) (\<lambda>_.
     bindE (load_name module_globals ''model_path'') (\<lambda>default_model_path.
     bindE (emit (AddArgument ''--model_path'')) (\<lambda>_.
     bindE (emit (AddArgument ''--high_fa_path'')) (\<lambda>_.
     bindE (emit (AddArgument ''--low_fa_path'')) (\<lambda>_.
     bindE (emit (AddArgument ''--data_type'')) (\<lambda>_.
     bindE (emit (AddArgument ''--save_name'')) (\<lambda>_.
     bindE (emit (AddArgument ''--save_dir'')) (\<lambda>_.
     bindE (emit ParseArgs) (\<lambda>_.
     bindE (w_parse_args w argv default_model_path) (\<lambda>args.
       let model_path = a_model_path args;
           high_fa_path = a_high_fa_path args;
           low_fa_path = a_low_fa_path args;
           data_type = lower (a_data_type args);
           save_name = a_save_name args;
           save_dir = a_save_dir args
       in
     bindE (emit GetTokenizer) (\<lambda>_.
     bindE (emit (LoadModel model_path)) (\<lambda>_.
     bindE (w_load_model w model_path) (\<lambda>(model, bert_tokenizer_fast).
     bindE (fetch_steering_vector (w_mytok w) (w_files w) data_type model bert_tokenizer_fast
              None None 300 (3072 - 6) None high_fa_path low_fa_path) (\<lambda>steering_vectors.
     bindE (emit (Print ''steering_vectors.shape'')) (\<lambda>_.
     bindE (if \<not> w_exists w save_dir then emit (MakeDirs save_dir) else returnE ()) (\<lambda>_.
     bindE (save_path save_dir save_name) (\<lambda>path.
     bindE (emit (Save path)) (\<lambda>_.
     bindE (save_path save_dir save_name) (\<lambda>path'.
       emit (Print (''Saved steering vectors to '' @ path')))))))))))))))))))))"

section \<open>Collaborators that keep their contracts\<close>

text \<open>
  A tokenizer called with \<^verbatim>\<open>padding="max_length", truncation=True\<close> returns one row per
  text, each of exactly the requested length. An encoder with \<open>depth\<close> layers and
  embedding size \<open>emb\<close> returns, for \<open>n\<close> rows of \<open>len\<close> tokens, \<open>depth + 1\<close> hidden
  states of shape \<open>(n, len, emb)\<close>.
\<close>

definition pads_to_max_length :: "tokenizer \<Rightarrow> bool" where
  "pads_to_max_length tokenizer =
     (\<forall>texts max_length. shape2_is (tokenizer texts max_length) (length texts) max_length)"

definition encoder_model :: "model \<Rightarrow> nat \<Rightarrow> nat \<Rightarrow> bool" where
  "encoder_model model depth emb =
     (\<forall>ids n len. shape2_is ids n len \<longrightarrow>
        length (model ids) = Suc depth \<and> list_all (\<lambda>h. shape3_is h n len emb) (model ids))"

subsection \<open>Small collaborators to run the function on\<close>

definition toy_mytok :: mytok where
  "toy_mytok seq kmer_len stride = [take kmer_len seq]"

definition toy_tokenizer :: tokenizer where
  "toy_tokenizer texts max_length = map (\<lambda>t. replicate max_length (int (length t))) texts"

definition ragged_tokenizer :: tokenizer where
  "ragged_tokenizer texts max_length = map (\<lambda>t. replicate (length t) 1) texts"

definition toy_model :: model where
  "toy_model ids =
     [map (map (\<lambda>t. [real_of_int t])) ids, map (map (\<lambda>t. [real_of_int t + 1])) ids]"

definition toy_files :: files where
  "toy_files = [''high.fa'' \<mapsto> [''AUGGCC''], ''low.fa'' \<mapsto> [''AU'']]"

definition toy_sequences :: "string \<rightharpoonup> string" where
  "toy_sequences = [''seq1'' \<mapsto> ''AUGGCC'']"

subsection \<open>What the batches of a well-behaved encoder look like\<close>

text \<open>A stack of encoder-layer outputs: \<open>depth\<close> layers, each a non-empty list of matrices.\<close>

definition good_slab :: "nat \<Rightarrow> nat \<Rightarrow> nat \<Rightarrow> tensor4 \<Rightarrow> bool" where
  "good_slab depth len emb slab \<longleftrightarrow>
     length slab = depth \<and> (\<forall>layer\<in>set slab. layer \<noteq> [] \<and> (\<forall>m\<in>set layer. shape2_is m len emb))"

section \<open>Facts about runs\<close>

lemma bindE_Inl [simp]: "bindE (tr, Inl e) f = (tr, Inl e)"
  by (simp add: bindE_def)

lemma bindE_Inr [simp]: "bindE (tr, Inr x) f = (tr @ fst (f x), snd (f x))"
  by (simp add: bindE_def split: prod.splits)

lemmas run_defs = returnE_def raiseE_def emit_def

lemma lower_names:
  "lower ''FASTA'' = ''fasta''" "lower ''fasta'' = ''fasta''" "lower ''mfe'' = ''mfe''"
  "lower ''cai'' = ''cai''" "lower ''MFE_CAI'' = ''mfe_cai''" "lower ''dna'' = ''dna''"
  by (simp_all add: lower_def lower_char_def)

lemma choose_mode_table:
  assumes "lower data_type \<noteq> ''fasta''"
  shows "choose_mode fs data_type lam hp lp entry_frame = (tr, Inr fr) \<Longrightarrow> v_df fr = None \<and> tr = []"
  using assms
  by (auto simp: choose_mode_def entry_frame_def load_fast_def run_defs split: if_splits option.splits)

lemma returns_only_fasta:
  assumes "snd (fetch_steering_vector mytok fs data_type model tokenizer sequences percent mn mx lam hp lp) = Inr v"
  shows "lower data_type = ''fasta''"
proof (rule ccontr)
  assume nf: "lower data_type \<noteq> ''fasta''"
  obtain tr r where cm: "choose_mode fs data_type lam hp lp entry_frame = (tr, r)"
    by (cases "choose_mode fs data_type lam hp lp entry_frame") auto
  show False
  proof (cases r)
    case (Inl e)
    with cm assms show False by (simp add: fetch_steering_vector_def)
  next
    case (Inr fr)
    with cm nf have "v_df fr = None" using choose_mode_table by blast
    then have "snd (select_sequences data_type sequences percent mn mx fr) = Inl (UnboundLocalError ''df'')
       \<or> (\<exists>m. snd (select_sequences data_type sequences percent mn mx fr) = Inl (ValueError m))"
      using nf by (auto simp: select_sequences_def load_fast_def run_defs split: option.splits)
    with cm Inr assms show False
      by (cases "select_sequences data_type sequences percent mn mx fr")
         (auto simp: fetch_steering_vector_def)
  qed
qed

lemma percent_modes_unbound:
  assumes "lower data_type = ''mfe'' \<or> lower data_type = ''cai''"
  shows "fetch_steering_vector mytok fs data_type model tokenizer sequences (Some p) mn mx lam hp lp
       = ([], Inl (UnboundLocalError ''df''))"
  using assms
  by (auto simp add: fetch_steering_vector_def choose_mode_def select_sequences_def
        entry_frame_def load_fast_def run_defs)

lemma mfe_cai_unbound:
  assumes "lower data_type = ''mfe_cai''"
  shows "fetch_steering_vector mytok fs data_type model tokenizer sequences percent mn mx (Some l) hp lp
       = ([], Inl (UnboundLocalError ''df''))"
  using assms
  by (simp add: fetch_steering_vector_def choose_mode_def select_sequences_def
        entry_frame_def load_fast_def run_defs)


subsection \<open>Shapes\<close>

lemma shape2_is_iff: "shape2_is t a b \<longleftrightarrow> length t = a \<and> (\<forall>r\<in>set t. length r = b)"
  by (simp add: shape2_is_def list_all_iff)

lemma shape3_is_iff: "shape3_is t a b c \<longleftrightarrow> length t = a \<and> (\<forall>m\<in>set t. shape2_is m b c)"
  by (simp add: shape3_is_def list_all_iff)

lemma shape4_is_iff: "shape4_is t a b c d \<longleftrightarrow> length t = a \<and> (\<forall>s\<in>set t. shape3_is s b c d)"
  by (simp add: shape4_is_def list_all_iff)

lemma shape2_slice:
  assumes "shape2_is t n len"
  shows "shape2_is (slice t i (i + 32)) (min 32 (n - i)) len"
  using assms by (auto simp: shape2_is_iff slice_def dest: in_set_takeD in_set_dropD)

lemma range_step_bound: "i \<in> set (range_step n 32) \<Longrightarrow> i < n"
  by (auto simp: range_step_def)

lemma range_step_empty: "range_step n 32 = [] \<longleftrightarrow> n = 0"
  by (auto simp: range_step_def)

lemma model_slab:
  assumes "encoder_model model depth emb" "shape2_is ids n len" "0 < n"
  shows "good_slab depth len emb (tl (model ids))"
proof -
  from assms(1,2) have len: "length (model ids) = Suc depth"
    and all: "\<forall>h\<in>set (model ids). shape3_is h n len emb"
    by (auto simp: encoder_model_def list_all_iff)
  have "\<forall>h\<in>set (tl (model ids)). shape3_is h n len emb"
    using all by (cases "model ids") auto
  with len assms(3) show ?thesis
    by (auto simp: good_slab_def shape3_is_iff)
qed

lemma forward_batches_good:
  assumes "encoder_model model depth emb" "shape2_is seqs n len"
  shows "\<forall>i\<in>set starts. i < n \<Longrightarrow> forward_batches model seqs starts = (tr, Inr slabs) \<Longrightarrow>
         length slabs = length starts \<and> (\<forall>slab\<in>set slabs. good_slab depth len emb slab)"
proof (induction starts arbitrary: tr slabs)
  case Nil
  then show ?case by (simp add: returnE_def)
next
  case (Cons i starts)
  from Cons.prems(1) have i: "i < n" by simp
  have sl: "shape2_is (slice seqs i (i + 32)) (min 32 (n - i)) len"
    using assms(2) by (rule shape2_slice)
  have good: "good_slab depth len emb (tl (model (slice seqs i (i + 32))))"
    by (rule model_slab[OF assms(1) sl]) (use i in simp)
  from Cons.prems(2) obtain tr' rest where
    rec: "forward_batches model seqs starts = (tr', Inr rest)"
    and slabs: "slabs = tl (model (slice seqs i (i + 32))) # rest"
    by (auto simp: torch_stack_def run_defs Let_def split: if_splits prod.splits sum.splits)
  from Cons.IH[OF _ rec] Cons.prems(1) have "length rest = length starts"
    "\<forall>slab\<in>set rest. good_slab depth len emb slab" by auto
  with slabs good show ?case by simp
qed

lemma forward_batches_succeeds:
  assumes "encoder_model model depth emb" "shape2_is seqs n len" "0 < depth"
  shows "\<forall>i\<in>set starts. i < n \<Longrightarrow> \<exists>tr slabs. forward_batches model seqs starts = (tr, Inr slabs)"
proof (induction starts)
  case Nil
  then show ?case by (simp add: returnE_def)
next
  case (Cons i starts)
  from Cons.prems have i: "i < n" by simp
  have sl: "shape2_is (slice seqs i (i + 32)) (min 32 (n - i)) len"
    using assms(2) by (rule shape2_slice)
  have "good_slab depth len emb (tl (model (slice seqs i (i + 32))))"
    by (rule model_slab[OF assms(1) sl]) (use i in simp)
  then have ne: "tl (model (slice seqs i (i + 32))) \<noteq> []"
    using assms(3) by (auto simp: good_slab_def simp del: length_tl)
  from Cons obtain tr' rest where "forward_batches model seqs starts = (tr', Inr rest)" by auto
  with ne show ?case by (simp add: torch_stack_def run_defs Let_def)
qed

lemma forward_batches_no_layers:
  assumes "forward_batches model seqs (i # starts) = (tr, Inr slabs)"
  shows "tl (model (slice seqs i (i + 32))) \<noteq> []"
  using assms
  by (auto simp: torch_stack_def run_defs Let_def split: if_splits prod.splits sum.splits)

lemma torch_cat1_good:
  assumes "slabs \<noteq> []" "\<forall>slab\<in>set slabs. good_slab depth len emb slab"
  shows "\<exists>joined. torch_cat1 slabs = ([], Inr joined) \<and> good_slab depth len emb joined"
proof -
  obtain t rest where ts: "slabs = t # rest" using assms(1) by (cases slabs) auto
  let ?joined = "map (\<lambda>l. concat (map (\<lambda>s. s ! l) slabs)) [0..<length t]"
  have t: "good_slab depth len emb t" using assms(2) ts by simp
  have cat: "torch_cat1 slabs = ([], Inr ?joined)"
    by (simp add: torch_cat1_def ts returnE_def)
  have lay: "\<And>l s. l < depth \<Longrightarrow> s \<in> set slabs \<Longrightarrow> s ! l \<in> set s"
    using assms(2) by (auto simp: good_slab_def)
  have "good_slab depth len emb ?joined"
    unfolding good_slab_def
  proof (intro conjI ballI)
    show "length ?joined = depth" using t by (simp add: good_slab_def)
  next
    fix layer assume "layer \<in> set ?joined"
    then obtain l where l: "l < depth" and layer: "layer = concat (map (\<lambda>s. s ! l) slabs)"
      using t by (auto simp: good_slab_def)
    have "t ! l \<noteq> []" using lay[OF l, of t] t ts by (auto simp: good_slab_def)
    then show "layer \<noteq> []" using layer ts by simp
  next
    fix layer m assume "layer \<in> set ?joined" "m \<in> set layer"
    then obtain l s where l: "l < depth" and s: "s \<in> set slabs" and m: "m \<in> set (s ! l)"
      using t by (auto simp: good_slab_def)
    from lay[OF l s] assms(2) s m show "shape2_is m len emb"
      by (auto simp: good_slab_def)
  qed
  with cat show ?thesis by blast
qed

lemma shape2_add_mat:
  "shape2_is a len emb \<Longrightarrow> shape2_is b len emb \<Longrightarrow> shape2_is (add_mat a b) len emb"
  by (auto simp: shape2_is_iff add_mat_def set_zip)

lemma shape2_foldl_add_mat:
  "shape2_is m len emb \<Longrightarrow> \<forall>x\<in>set rest. shape2_is x len emb \<Longrightarrow>
     shape2_is (foldl add_mat m rest) len emb"
  by (induction rest arbitrary: m) (auto simp: shape2_add_mat)

lemma shape2_mean_mats:
  assumes "layer \<noteq> []" "\<forall>m\<in>set layer. shape2_is m len emb"
  shows "shape2_is (mean_mats layer) len emb"
proof -
  obtain m rest where l: "layer = m # rest" using assms(1) by (cases layer) auto
  have "shape2_is (foldl add_mat m rest) len emb"
    using assms(2) l by (intro shape2_foldl_add_mat) auto
  then show ?thesis by (auto simp: mean_mats_def l shape2_is_iff)
qed

lemma shape4_mean_axis1:
  assumes "good_slab depth len emb joined"
  shows "shape4_is (mean_axis1 joined) depth 1 len emb"
  using assms
  by (auto simp: good_slab_def mean_axis1_def shape4_is_iff shape3_is_iff shape2_mean_mats)

lemma shape2_map2:
  "shape2_is a n m \<Longrightarrow> shape2_is b n m \<Longrightarrow> shape2_is (map2 (map2 f) a b) n m"
  by (auto simp: shape2_is_iff elim: in_set_zipE)

lemma shape3_map2:
  "shape3_is a k n m \<Longrightarrow> shape3_is b k n m \<Longrightarrow> shape3_is (map2 (map2 (map2 f)) a b) k n m"
  by (auto simp: shape3_is_iff shape2_map2 elim: in_set_zipE)

lemma shape4_sub4:
  assumes "shape4_is a d1 d2 d3 d4" "shape4_is b d1 d2 d3 d4"
  shows "shape4_is (sub4 a b) d1 d2 d3 d4"
  using assms
  by (auto simp: sub4_def shape4_is_iff shape3_map2 elim: in_set_zipE)

lemma bindE_return_right [simp]: "bindE m (\<lambda>x. ([], Inr x)) = m"
  by (auto simp: bindE_def split: prod.splits sum.splits)

lemma pads_encode:
  assumes "pads_to_max_length tokenizer"
  shows "shape2_is (encode_sequences mytok xs tokenizer len) (length xs) len"
proof -
  let ?texts = "map (\<lambda>seq. join_spaces (mytok seq 3 3)) xs"
  from assms have "shape2_is (tokenizer ?texts len) (length ?texts) len"
    unfolding pads_to_max_length_def by blast
  then show ?thesis by (simp add: encode_sequences_def)
qed

lemma layer_means_Inr:
  assumes "layer_means model seqs = (tr, Inr v)"
  obtains tr1 slabs joined where
    "forward_batches model seqs (range_step (length seqs) 32) = (tr1, Inr slabs)"
    "torch_cat1 slabs = ([], Inr joined)" "v = mean_axis1 joined" "slabs \<noteq> []"
proof -
  obtain tr1 r where fb: "forward_batches model seqs (range_step (length seqs) 32) = (tr1, r)"
    by (cases "forward_batches model seqs (range_step (length seqs) 32)") auto
  from assms fb obtain slabs where r: "r = Inr slabs"
    by (cases r) (auto simp: layer_means_def)
  from assms fb r obtain joined where "torch_cat1 slabs = ([], Inr joined)" "v = mean_axis1 joined" "slabs \<noteq> []"
    by (cases slabs) (auto simp: layer_means_def torch_cat1_def run_defs)
  with fb r that show ?thesis by blast
qed

lemma layer_means_shape:
  assumes "encoder_model model depth emb" "shape2_is seqs n len"
    and "layer_means model seqs = (tr, Inr v)"
  shows "shape4_is v depth 1 len emb"
proof -
  from assms(3) obtain tr1 slabs joined where
    fb: "forward_batches model seqs (range_step (length seqs) 32) = (tr1, Inr slabs)"
    and cat: "torch_cat1 slabs = ([], Inr joined)" and v: "v = mean_axis1 joined"
    and ne: "slabs \<noteq> []"
    by (rule layer_means_Inr)
  have n: "length seqs = n" using assms(2) by (simp add: shape2_is_iff)
  have "\<forall>i\<in>set (range_step (length seqs) 32). i < n"
    using n range_step_bound by blast
  from forward_batches_good[OF assms(1,2) this fb]
  have "\<forall>slab\<in>set slabs. good_slab depth len emb slab" by simp
  from torch_cat1_good[OF ne this] cat have "good_slab depth len emb joined" by auto
  then show ?thesis unfolding v by (rule shape4_mean_axis1)
qed

lemma layer_means_succeeds:
  assumes "encoder_model model depth emb" "shape2_is seqs n len" "0 < depth" "0 < n"
  shows "\<exists>tr v. layer_means model seqs = (tr, Inr v)"
proof -
  have n: "length seqs = n" using assms(2) by (simp add: shape2_is_iff)
  have bound: "\<forall>i\<in>set (range_step (length seqs) 32). i < n"
    using n range_step_bound by blast
  from forward_batches_succeeds[OF assms(1,2,3) bound] obtain tr1 slabs
    where fb: "forward_batches model seqs (range_step (length seqs) 32) = (tr1, Inr slabs)"
    by blast
  from forward_batches_good[OF assms(1,2) bound fb]
  have len: "length slabs = length (range_step (length seqs) 32)"
    and good: "\<forall>slab\<in>set slabs. good_slab depth len emb slab" by simp_all
  have "slabs \<noteq> []" using len n assms(4) range_step_empty[of n] by auto
  from torch_cat1_good[OF this good] obtain joined where "torch_cat1 slabs = ([], Inr joined)"
    by blast
  with fb show ?thesis by (simp add: layer_means_def run_defs)
qed

text \<open>The steps of lines 72 to 109 that a returning run has taken.\<close>

lemma compute_difference_Inr:
  assumes "compute_difference mytok model tokenizer hi lo = (tr, Inr v)"
  obtains r1 rs1 r2 rs2 tr1 tr2 tv lv where
    "encode_sequences mytok hi tokenizer 1024 = r1 # rs1"
    "encode_sequences mytok lo tokenizer 1024 = r2 # rs2"
    "length r1 = length r2"
    "layer_means model (encode_sequences mytok hi tokenizer 1024) = (tr1, Inr tv)"
    "layer_means model (encode_sequences mytok lo tokenizer 1024) = (tr2, Inr lv)"
    "v = sub4 tv lv"
proof -
  let ?t = "encode_sequences mytok hi tokenizer 1024"
  let ?l = "encode_sequences mytok lo tokenizer 1024"
  from assms obtain r1 rs1 where t: "?t = r1 # rs1"
    by (cases ?t) (auto simp: compute_difference_def size1_def run_defs Let_def)
  from assms t obtain r2 rs2 where l: "?l = r2 # rs2"
    by (cases ?l) (auto simp: compute_difference_def size1_def run_defs Let_def)
  from assms t l have eq: "length r1 = length r2"
    by (auto simp: compute_difference_def size1_def run_defs Let_def split: if_splits)
  obtain tr1 x where a: "layer_means model ?t = (tr1, x)" by (cases "layer_means model ?t") auto
  obtain tr2 y where b: "layer_means model ?l = (tr2, y)" by (cases "layer_means model ?l") auto
  from assms t l eq a obtain tv where x: "x = Inr tv"
    by (cases x) (auto simp: compute_difference_def size1_def run_defs Let_def)
  from assms t l eq a b x obtain lv where y: "y = Inr lv"
    by (cases y) (auto simp: compute_difference_def size1_def run_defs Let_def)
  from assms t l eq a b x y have "v = sub4 tv lv"
    by (auto simp: compute_difference_def size1_def run_defs Let_def)
  with t l eq a b x y that show ?thesis by blast
qed

lemma compute_difference_shape:
  assumes "pads_to_max_length tokenizer" "encoder_model model depth emb"
    and "compute_difference mytok model tokenizer hi lo = (tr, Inr v)"
  shows "shape4_is v depth 1 1024 emb"
proof -
  from assms(3) obtain tr1 tr2 tv lv where
    a: "layer_means model (encode_sequences mytok hi tokenizer 1024) = (tr1, Inr tv)"
    and b: "layer_means model (encode_sequences mytok lo tokenizer 1024) = (tr2, Inr lv)"
    and v: "v = sub4 tv lv"
    by (rule compute_difference_Inr)
  have st: "shape2_is (encode_sequences mytok hi tokenizer 1024) (length hi) 1024"
    and sl: "shape2_is (encode_sequences mytok lo tokenizer 1024) (length lo) 1024"
    using assms(1) by (rule pads_encode)+
  have "shape4_is tv depth 1 1024 emb" by (rule layer_means_shape[OF assms(2) st a])
  moreover have "shape4_is lv depth 1 1024 emb" by (rule layer_means_shape[OF assms(2) sl b])
  ultimately show ?thesis unfolding v by (rule shape4_sub4)
qed

lemma compute_difference_succeeds:
  assumes "pads_to_max_length tokenizer" "encoder_model model depth emb" "0 < depth"
    and "hi \<noteq> []" "lo \<noteq> []"
  shows "\<exists>tr v. compute_difference mytok model tokenizer hi lo = (tr, Inr v)"
proof -
  let ?t = "encode_sequences mytok hi tokenizer 1024"
  let ?l = "encode_sequences mytok lo tokenizer 1024"
  have st: "shape2_is ?t (length hi) 1024" and sl: "shape2_is ?l (length lo) 1024"
    using assms(1) by (rule pads_encode)+
  obtain r1 rs1 where t: "?t = r1 # rs1" using st assms(4) by (cases ?t) (auto simp: shape2_is_iff)
  obtain r2 rs2 where l: "?l = r2 # rs2" using sl assms(5) by (cases ?l) (auto simp: shape2_is_iff)
  have eq: "length r1 = length r2" using st sl t l by (simp add: shape2_is_iff)
  from layer_means_succeeds[OF assms(2) st assms(3)] assms(4)
  obtain tr1 tv where a: "layer_means model ?t = (tr1, Inr tv)" by auto
  from layer_means_succeeds[OF assms(2) sl assms(3)] assms(5)
  obtain tr2 lv where b: "layer_means model ?l = (tr2, Inr lv)" by auto
  show ?thesis using t l eq a b
    by (simp add: compute_difference_def size1_def run_defs Let_def)
qed

text \<open>The function in FASTA mode, step by step.\<close>

lemma fetch_fasta:
  assumes "lower data_type = ''fasta''"
  shows "fetch_steering_vector mytok fs data_type model tokenizer sequences percent mn mx lam
           (Some hp) (Some lp) =
         (case fs hp of
            None \<Rightarrow> ([ParseFasta hp], Inl (FileNotFoundError hp))
          | Some hs \<Rightarrow>
              (case fs lp of
                 None \<Rightarrow> ([ParseFasta hp, ParseFasta lp], Inl (FileNotFoundError lp))
               | Some ls \<Rightarrow>
                   (ParseFasta hp # ParseFasta lp # fst (compute_difference mytok model tokenizer hs ls),
                    snd (compute_difference mytok model tokenizer hs ls))))"
proof -
  have ne: "lower data_type \<noteq> ''mfe''" "lower data_type \<noteq> ''cai''" "lower data_type \<noteq> ''mfe_cai''"
    using assms by simp_all
  show ?thesis
    by (simp add: fetch_steering_vector_def choose_mode_def select_sequences_def SeqIO_parse_def
          entry_frame_def load_fast_def run_defs ne assms split: option.splits)
qed

lemma fetch_Inr:
  assumes "snd (fetch_steering_vector mytok fs data_type model tokenizer sequences percent mn mx lam
           hpo lpo) = Inr v"
  obtains hp lp hs ls where "lower data_type = ''fasta''" "hpo = Some hp" "lpo = Some lp"
    "fs hp = Some hs" "fs lp = Some ls"
    "snd (compute_difference mytok model tokenizer hs ls) = Inr v"
proof -
  have f: "lower data_type = ''fasta''" using assms by (rule returns_only_fasta)
  have ne: "lower data_type \<noteq> ''mfe''" "lower data_type \<noteq> ''cai''" "lower data_type \<noteq> ''mfe_cai''"
    using f by simp_all
  from assms f ne obtain hp lp where p: "hpo = Some hp" "lpo = Some lp"
    by (cases hpo; cases lpo) (auto simp: fetch_steering_vector_def choose_mode_def run_defs)
  from assms obtain hs ls where "fs hp = Some hs" "fs lp = Some ls"
    "snd (compute_difference mytok model tokenizer hs ls) = Inr v"
    unfolding p fetch_fasta[OF f] by (auto split: option.splits)
  with f p that show ?thesis by blast
qed

lemma non_fasta_errors:
  assumes "lower data_type \<noteq> ''fasta''"
  shows "\<exists>e. fetch_steering_vector mytok fs data_type model tokenizer sequences percent mn mx lam hpo lpo
            = ([], Inl e) \<and> (e = UnboundLocalError ''df'' \<or> (\<exists>m. e = ValueError m))"
proof -
  consider (mfe) "lower data_type = ''mfe''" | (cai) "lower data_type = ''cai''"
    | (mfe_cai) "lower data_type = ''mfe_cai''"
    | (other) "lower data_type \<noteq> ''mfe''" "lower data_type \<noteq> ''cai''" "lower data_type \<noteq> ''mfe_cai''"
    by blast
  then show ?thesis
  proof cases
    case mfe
    then show ?thesis
      by (cases percent)
         (simp_all add: fetch_steering_vector_def choose_mode_def select_sequences_def
            entry_frame_def load_fast_def run_defs)
  next
    case cai
    then show ?thesis
      by (cases percent)
         (simp_all add: fetch_steering_vector_def choose_mode_def select_sequences_def
            entry_frame_def load_fast_def run_defs)
  next
    case mfe_cai
    then show ?thesis
      by (cases lam)
         (simp_all add: fetch_steering_vector_def choose_mode_def select_sequences_def
            entry_frame_def load_fast_def run_defs)
  next
    case other
    with assms show ?thesis
      by (simp add: fetch_steering_vector_def choose_mode_def run_defs)
  qed
qed

lemma forward_batches_errors:
  "snd (forward_batches model seqs starts) = Inl e \<Longrightarrow> \<exists>m. e = RuntimeError m"
proof (induction starts)
  case Nil
  then show ?case by (simp add: returnE_def)
next
  case (Cons i starts)
  then show ?case
    by (cases "forward_batches model seqs starts"; cases "snd (forward_batches model seqs starts)")
       (auto simp: torch_stack_def run_defs Let_def split: if_splits)
qed

lemma layer_means_errors:
  assumes "snd (layer_means model seqs) = Inl e"
  shows "\<exists>m. e = RuntimeError m"
proof -
  obtain tr r where fb: "forward_batches model seqs (range_step (length seqs) 32) = (tr, r)"
    by (cases "forward_batches model seqs (range_step (length seqs) 32)") auto
  show ?thesis
  proof (cases r)
    case (Inl e')
    with fb assms have "e = e'" by (simp add: layer_means_def)
    with forward_batches_errors[of model seqs "range_step (length seqs) 32" e'] fb Inl
    show ?thesis by simp
  next
    case (Inr slabs)
    with fb assms show ?thesis
      by (cases slabs) (auto simp: layer_means_def torch_cat1_def run_defs)
  qed
qed

lemma compute_difference_mismatch:
  assumes "encode_sequences mytok hi tokenizer 1024 = r1 # rs1"
    "encode_sequences mytok lo tokenizer 1024 = r2 # rs2" "length r1 \<noteq> length r2"
  shows "compute_difference mytok model tokenizer hi lo
           = ([ModelEval], Inl (AssertionError ''top_seqs.size(1) == low_seqs.size(1)''))"
  using assms by (simp add: compute_difference_def size1_def run_defs Let_def)

lemma compute_difference_no_assert:
  assumes "pads_to_max_length tokenizer"
  shows "snd (compute_difference mytok model tokenizer hi lo)
           \<noteq> Inl (AssertionError ''top_seqs.size(1) == low_seqs.size(1)'')"
proof -
  let ?t = "encode_sequences mytok hi tokenizer 1024"
  let ?l = "encode_sequences mytok lo tokenizer 1024"
  have st: "shape2_is ?t (length hi) 1024" and sl: "shape2_is ?l (length lo) 1024"
    using assms by (rule pads_encode)+
  show ?thesis
  proof (cases ?t)
    case Nil
    then show ?thesis by (simp add: compute_difference_def size1_def run_defs Let_def)
  next
    case t: (Cons r1 rs1)
    show ?thesis
    proof (cases ?l)
      case Nil
      with t show ?thesis by (simp add: compute_difference_def size1_def run_defs Let_def)
    next
      case l: (Cons r2 rs2)
      have eq: "length r1 = length r2" using st sl t l by (simp add: shape2_is_iff)
      obtain tr1 x where a: "layer_means model ?t = (tr1, x)" by (cases "layer_means model ?t") auto
      obtain tr2 y where b: "layer_means model ?l = (tr2, y)" by (cases "layer_means model ?l") auto
      show ?thesis
        using t l eq a b layer_means_errors[of model ?t] layer_means_errors[of model ?l]
        by (cases x; cases y) (auto simp: compute_difference_def size1_def run_defs Let_def)
    qed
  qed
qed

lemma fetch_no_assert:
  assumes "pads_to_max_length tokenizer"
  shows "snd (fetch_steering_vector mytok fs data_type model tokenizer sequences percent mn mx lam hpo lpo)
           \<noteq> Inl (AssertionError ''top_seqs.size(1) == low_seqs.size(1)'')"
proof (cases "lower data_type = ''fasta''")
  case False
  from non_fasta_errors[OF this, of mytok fs model tokenizer sequences percent mn mx lam hpo lpo]
  show ?thesis by auto
next
  case True
  show ?thesis
  proof (cases "\<exists>hp lp. hpo = Some hp \<and> lpo = Some lp")
    case False
    then have "fetch_steering_vector mytok fs data_type model tokenizer sequences percent mn mx lam hpo lpo
      = ([], Inl (AssertionError ''high_fa_path is not None and low_fa_path is not None''))"
      using True by (cases hpo; cases lpo) (simp_all add: fetch_steering_vector_def choose_mode_def run_defs)
    then show ?thesis by simp
  next
    case True
    then obtain hp lp where p: "hpo = Some hp" "lpo = Some lp" by blast
    show ?thesis unfolding p fetch_fasta[OF \<open>lower data_type = ''fasta''\<close>]
      using compute_difference_no_assert[OF assms]
      by (auto split: option.splits)
  qed
qed

lemma map2_swap:
  assumes "\<And>x y. f y x = g (h x y)"
  shows "map2 f b a = map g (map2 h a b)"
  by (induction a b rule: list_induct2') (simp_all add: assms)

lemma sub1_swap: "map2 (-) b a = map uminus (map2 (-) a (b :: real list))"
  by (rule map2_swap) simp

lemma sub2_swap: "map2 (map2 (-)) b a = map (map uminus) (map2 (map2 (-)) a (b :: real list list))"
  by (rule map2_swap) (rule sub1_swap)

lemma sub3_swap:
  "map2 (map2 (map2 (-))) b a
     = map (map (map uminus)) (map2 (map2 (map2 (-))) a (b :: real list list list))"
  by (rule map2_swap) (rule sub2_swap)

lemma sub4_swap: "sub4 b a = neg4 (sub4 a b)"
  unfolding sub4_def neg4_def by (rule map2_swap) (rule sub3_swap)

lemma compute_difference_swap:
  assumes "snd (compute_difference mytok model tokenizer hi lo) = Inr v"
  shows "snd (compute_difference mytok model tokenizer lo hi) = Inr (neg4 v)"
proof -
  obtain tr where "compute_difference mytok model tokenizer hi lo = (tr, Inr v)"
    using assms by (cases "compute_difference mytok model tokenizer hi lo") auto
  then obtain r1 rs1 r2 rs2 tr1 tr2 tv lv where
    "encode_sequences mytok hi tokenizer 1024 = r1 # rs1"
    "encode_sequences mytok lo tokenizer 1024 = r2 # rs2"
    "length r1 = length r2"
    "layer_means model (encode_sequences mytok hi tokenizer 1024) = (tr1, Inr tv)"
    "layer_means model (encode_sequences mytok lo tokenizer 1024) = (tr2, Inr lv)"
    "v = sub4 tv lv"
    by (rule compute_difference_Inr)
  then show ?thesis
    using sub4_swap[of lv tv]
    by (simp add: compute_difference_def size1_def run_defs Let_def)
qed

lemma fasta_returns:
  assumes "pads_to_max_length tokenizer" "encoder_model model depth emb" "0 < depth"
    and "lower data_type = ''fasta''" "fs hp = Some hs" "fs lp = Some ls" "hs \<noteq> []" "ls \<noteq> []"
  shows "\<exists>v. snd (fetch_steering_vector mytok fs data_type model tokenizer sequences percent mn mx lam
           (Some hp) (Some lp)) = Inr v"
  using compute_difference_succeeds[OF assms(1,2,3,7,8), of mytok] assms(5,6)
  unfolding fetch_fasta[OF assms(4)] by auto

lemma toy_pads: "pads_to_max_length toy_tokenizer"
  by (simp add: pads_to_max_length_def toy_tokenizer_def shape2_is_iff)

lemma toy_encoder: "encoder_model toy_model 1 1"
  by (auto simp: encoder_model_def toy_model_def shape3_is_iff shape2_is_iff)

lemma toy_returns:
  "\<exists>v. snd (fetch_steering_vector toy_mytok toy_files dt toy_model toy_tokenizer
           None None 300 (3072 - 6) None (Some ''high.fa'') (Some ''low.fa'')) = Inr v"
  if "lower dt = ''fasta''"
  by (rule fasta_returns[OF toy_pads toy_encoder _ that, where hs = "[''AUGGCC'']" and ls = "[''AU'']"])
     (simp_all add: toy_files_def)


lemma bindE_weak_cong: "m = m' \<Longrightarrow> bindE m f = bindE m' f"
  by simp

lemma map_of_model_path: "map_of module_globals ''model_path'' = None"
  by (simp add: module_globals_def)

lemma model_path_not_builtin: "''model_path'' \<notin> set builtin_names"
  by (simp add: builtin_names_def)

lemma load_model_path: "load_name module_globals ''model_path'' = ([], Inl (NameError ''model_path''))"
  by (simp add: load_name_def map_of_model_path model_path_not_builtin run_defs)

section \<open>The claims\<close>

subsection \<open>C1: the shape of the result in FASTA mode\<close>

text \<open>
  C1. In FASTA mode, with a tokenizer that pads to the requested length and an encoder of
  \<open>depth\<close> layers and embedding size \<open>emb\<close>, every array the function returns has the
  shape \<open>(depth, 1, 1024, emb)\<close>: the model hands back \<open>depth + 1\<close> hidden states, the
  first is dropped, and the mean over the sequences keeps that axis with size 1.
\<close>

theorem fasta_output_shape:
  assumes "pads_to_max_length tokenizer" "encoder_model model depth emb"
    and "lower data_type = ''fasta''"
    and "snd (fetch_steering_vector mytok fs data_type model tokenizer sequences percent
           min_seq_len max_seq_len lam high_fa_path low_fa_path) = Inr v"
  shows "shape4_is v depth 1 1024 emb"
proof -
  from assms(4) obtain hs ls where
    "snd (compute_difference mytok model tokenizer hs ls) = Inr v"
    by (rule fetch_Inr)
  then obtain tr where "compute_difference mytok model tokenizer hs ls = (tr, Inr v)"
    by (cases "compute_difference mytok model tokenizer hs ls") auto
  with assms(1,2) show ?thesis by (rule compute_difference_shape)
qed

text \<open>The run on the small collaborators returns, and its array has the shape \<open>(1, 1, 1024, 1)\<close>.\<close>

theorem fasta_output_shape_witness:
  "\<exists>v. snd (fetch_steering_vector toy_mytok toy_files ''fasta'' toy_model toy_tokenizer
           None None 300 (3072 - 6) None (Some ''high.fa'') (Some ''low.fa'')) = Inr v
       \<and> shape4_is v 1 1 1024 1"
proof -
  have f: "lower ''fasta'' = ''fasta''" by (simp add: lower_names)
  from toy_returns[OF f] obtain v where
    v: "snd (fetch_steering_vector toy_mytok toy_files ''fasta'' toy_model toy_tokenizer
           None None 300 (3072 - 6) None (Some ''high.fa'') (Some ''low.fa'')) = Inr v"
    by blast
  from fasta_output_shape[OF toy_pads toy_encoder f v] v show ?thesis by blast
qed

subsection \<open>C2: the sign of the result in the mode \<open>mfe\<close>\<close>

text \<open>
  C2. The mode \<open>mfe\<close> is meant to return the negated difference, and line 112 negates it,
  but no call in that mode gets there: with a percentage the table \<open>df\<close> is read at line 57
  before anything was assigned to it. At \<open>data_type = 'mfe'\<close>, \<open>percent = 0.1\<close> the run
  ends in that error and returns no array.
\<close>

theorem mfe_mode_raises:
  "fetch_steering_vector toy_mytok toy_files ''mfe'' toy_model toy_tokenizer
     (Some toy_sequences) (Some (1 / 10)) 300 (3072 - 6) None None None
     = ([], Inl (UnboundLocalError ''df''))"
  by (simp add: fetch_steering_vector_def choose_mode_def select_sequences_def
        entry_frame_def load_fast_def run_defs lower_names)

subsection \<open>C3: swapping the two FASTA files\<close>

text \<open>
  C3. For a data type other than \<open>mfe\<close>, whenever the function returns an array for the paths
  in one order, it returns the negated array for the paths in the other order.
\<close>

theorem swap_negates:
  assumes "lower data_type \<noteq> ''mfe''"
    and "snd (fetch_steering_vector mytok fs data_type model tokenizer sequences percent
           min_seq_len max_seq_len lam high_fa_path low_fa_path) = Inr v"
  shows "snd (fetch_steering_vector mytok fs data_type model tokenizer sequences percent
           min_seq_len max_seq_len lam low_fa_path high_fa_path) = Inr (neg4 v)"
proof -
  from assms(2) obtain hp lp hs ls where f: "lower data_type = ''fasta''"
    and p: "high_fa_path = Some hp" "low_fa_path = Some lp"
    and files: "fs hp = Some hs" "fs lp = Some ls"
    and c: "snd (compute_difference mytok model tokenizer hs ls) = Inr v"
    by (rule fetch_Inr)
  from c have "snd (compute_difference mytok model tokenizer ls hs) = Inr (neg4 v)"
    by (rule compute_difference_swap)
  then show ?thesis
    unfolding p fetch_fasta[OF f] by (simp add: files)
qed

theorem swap_negates_witness:
  "\<exists>v. snd (fetch_steering_vector toy_mytok toy_files ''fasta'' toy_model toy_tokenizer
           None None 300 (3072 - 6) None (Some ''high.fa'') (Some ''low.fa'')) = Inr v
       \<and> snd (fetch_steering_vector toy_mytok toy_files ''fasta'' toy_model toy_tokenizer
           None None 300 (3072 - 6) None (Some ''low.fa'') (Some ''high.fa'')) = Inr (neg4 v)"
proof -
  have f: "lower ''fasta'' = ''fasta''" and nm: "lower ''fasta'' \<noteq> ''mfe''"
    by (simp_all add: lower_names)
  from toy_returns[OF f] obtain v where
    v: "snd (fetch_steering_vector toy_mytok toy_files ''fasta'' toy_model toy_tokenizer
           None None 300 (3072 - 6) None (Some ''high.fa'') (Some ''low.fa'')) = Inr v"
    by blast
  from swap_negates[OF nm v] v show ?thesis by blast
qed

subsection \<open>C5: how many rows a percentage selects\<close>

text \<open>
  Had the table been bound, a percentage of one tenth on 100 rows would give \<open>n = 10\<close> and
  ten rows in either group.
\<close>

lemma percent_selection_sizes:
  assumes "length df = 100"
  shows "py_int (real (length df) * (1 / 10)) = 10"
    and "length (nlargest 10 value_col df) = 10"
    and "length (nsmallest 10 value_col df) = 10"
  using assms by (simp_all add: py_int_def nlargest_def nsmallest_def)

text \<open>
  C5. No call reaches that selection: at \<open>data_type = 'cai'\<close>, \<open>percent = 0.1\<close> the run ends
  at the first read of the unassigned table \<open>df\<close>, with no row selected.
\<close>

theorem cai_percent_mode_raises:
  "fetch_steering_vector toy_mytok toy_files ''cai'' toy_model toy_tokenizer
     (Some toy_sequences) (Some (1 / 10)) 300 (3072 - 6) None None None
     = ([], Inl (UnboundLocalError ''df''))"
  by (simp add: fetch_steering_vector_def choose_mode_def select_sequences_def
        entry_frame_def load_fast_def run_defs lower_names)

subsection \<open>C6: the two argument errors of the mode chain\<close>

text \<open>
  The data type is compared after \<^verbatim>\<open>lower()\<close>: \<open>'FASTA'\<close> is none of the four names as
  written, and the call with it raises nothing.
\<close>

theorem uppercase_fasta_accepted:
  "''FASTA'' \<notin> {''mfe'', ''cai'', ''mfe_cai'', ''fasta''}
   \<and> \<not> isl (snd (fetch_steering_vector toy_mytok toy_files ''FASTA'' toy_model toy_tokenizer
           None None 300 (3072 - 6) None (Some ''high.fa'') (Some ''low.fa'')))"
proof -
  have "lower ''FASTA'' = ''fasta''" by (simp add: lower_names)
  from toy_returns[OF this] show ?thesis by auto
qed

text \<open>
  C6, amended. A data type whose lower-cased form is none of \<open>mfe\<close>, \<open>cai\<close>, \<open>mfe_cai\<close>,
  \<open>fasta\<close> raises the data-type error, and the lower-cased data type \<open>mfe_cai\<close> without
  \<open>lambda_\<close> raises the missing-coefficient error; either run has recorded no event, so no
  file was parsed, no sequence selected and no forward pass made.
\<close>

theorem invalid_arguments_raise:
  "(lower data_type \<notin> {''mfe'', ''cai'', ''mfe_cai'', ''fasta''} \<longrightarrow>
     fetch_steering_vector mytok fs data_type model tokenizer sequences percent
       min_seq_len max_seq_len lam high_fa_path low_fa_path
       = ([], Inl (ValueError ''data_type must be 'mfe' or 'cai' or 'mfe_cai' or 'fasta'.'')))
  \<and> (lower data_type = ''mfe_cai'' \<longrightarrow>
     fetch_steering_vector mytok fs data_type model tokenizer sequences percent
       min_seq_len max_seq_len None high_fa_path low_fa_path
       = ([], Inl (ValueError ''Must provide 'lambda_' for 'mfe_cai' data type.'')))"
  by (simp add: fetch_steering_vector_def choose_mode_def run_defs)

theorem invalid_arguments_raise_witness:
  "fetch_steering_vector toy_mytok toy_files ''dna'' toy_model toy_tokenizer
       None None 300 (3072 - 6) None (Some ''high.fa'') (Some ''low.fa'')
       = ([], Inl (ValueError ''data_type must be 'mfe' or 'cai' or 'mfe_cai' or 'fasta'.''))
   \<and> fetch_steering_vector toy_mytok toy_files ''MFE_CAI'' toy_model toy_tokenizer
       (Some toy_sequences) (Some (1 / 10)) 300 (3072 - 6) None None None
       = ([], Inl (ValueError ''Must provide 'lambda_' for 'mfe_cai' data type.''))"
  using invalid_arguments_raise[where data_type = "''dna''" and mytok = toy_mytok
          and fs = toy_files and model = toy_model and tokenizer = toy_tokenizer
          and sequences = None and percent = None and min_seq_len = 300
          and max_seq_len = "3072 - 6" and lam = None and high_fa_path = "Some ''high.fa''"
          and low_fa_path = "Some ''low.fa''"]
        invalid_arguments_raise[where data_type = "''MFE_CAI''" and mytok = toy_mytok
          and fs = toy_files and model = toy_model and tokenizer = toy_tokenizer
          and sequences = "Some toy_sequences" and percent = "Some (1 / 10)"
          and min_seq_len = 300 and max_seq_len = "3072 - 6" and high_fa_path = None
          and low_fa_path = None]
  by (simp add: lower_names)

subsection \<open>C7: FASTA mode without paths\<close>

text \<open>
  C7. In FASTA mode with both paths missing the call fails on the assertion of line 44, and
  the run has recorded no event: no file was parsed and the model was not touched.
\<close>

theorem missing_fasta_paths:
  "lower data_type = ''fasta'' \<Longrightarrow>
   fetch_steering_vector mytok fs data_type model tokenizer sequences percent
     min_seq_len max_seq_len lam None None
     = ([], Inl (AssertionError ''high_fa_path is not None and low_fa_path is not None''))"
  by (simp add: fetch_steering_vector_def choose_mode_def run_defs)

theorem missing_fasta_paths_witness:
  "lower ''fasta'' = ''fasta'' \<and>
   fetch_steering_vector toy_mytok toy_files ''fasta'' toy_model toy_tokenizer
     None None 300 (3072 - 6) None None None
     = ([], Inl (AssertionError ''high_fa_path is not None and low_fa_path is not None''))"
proof -
  have f: "lower ''fasta'' = ''fasta''" by (simp add: lower_names)
  from missing_fasta_paths[OF f] f show ?thesis by blast
qed

subsection \<open>C8: the assertion on the token lengths\<close>

text \<open>
  C8. If the two tokenized groups differ in their second size, the call fails on the
  assertion of line 79 after the two files were parsed and the model was put in evaluation
  mode, with no forward pass. With a tokenizer that pads to the requested length that
  assertion never fails, and both groups have rows of 1024 tokens.
\<close>

theorem token_length_assertion:
  "(lower data_type = ''fasta'' \<and> fs hp = Some hs \<and> fs lp = Some ls
      \<and> encode_sequences mytok hs tokenizer 1024 = r1 # rs1
      \<and> encode_sequences mytok ls tokenizer 1024 = r2 # rs2
      \<and> length r1 \<noteq> length r2
    \<longrightarrow> fetch_steering_vector mytok fs data_type model tokenizer sequences percent
          min_seq_len max_seq_len lam (Some hp) (Some lp)
        = ([ParseFasta hp, ParseFasta lp, ModelEval],
           Inl (AssertionError ''top_seqs.size(1) == low_seqs.size(1)'')))
   \<and> (pads_to_max_length tokenizer
    \<longrightarrow> snd (fetch_steering_vector mytok fs data_type model tokenizer sequences percent
               min_seq_len max_seq_len lam high_fa_path low_fa_path)
          \<noteq> Inl (AssertionError ''top_seqs.size(1) == low_seqs.size(1)'')
        \<and> (encode_sequences mytok hs tokenizer 1024 = r1 # rs1
             \<and> encode_sequences mytok ls tokenizer 1024 = r2 # rs2
           \<longrightarrow> length r1 = 1024 \<and> length r2 = 1024))"
proof (intro conjI impI)
  assume a: "lower data_type = ''fasta'' \<and> fs hp = Some hs \<and> fs lp = Some ls
      \<and> encode_sequences mytok hs tokenizer 1024 = r1 # rs1
      \<and> encode_sequences mytok ls tokenizer 1024 = r2 # rs2
      \<and> length r1 \<noteq> length r2"
  then have "compute_difference mytok model tokenizer hs ls
           = ([ModelEval], Inl (AssertionError ''top_seqs.size(1) == low_seqs.size(1)''))"
    by (intro compute_difference_mismatch) auto
  with a show "fetch_steering_vector mytok fs data_type model tokenizer sequences percent
          min_seq_len max_seq_len lam (Some hp) (Some lp)
        = ([ParseFasta hp, ParseFasta lp, ModelEval],
           Inl (AssertionError ''top_seqs.size(1) == low_seqs.size(1)''))"
    by (simp add: fetch_fasta)
next
  assume "pads_to_max_length tokenizer"
  then show "snd (fetch_steering_vector mytok fs data_type model tokenizer sequences percent
               min_seq_len max_seq_len lam high_fa_path low_fa_path)
          \<noteq> Inl (AssertionError ''top_seqs.size(1) == low_seqs.size(1)'')"
    by (rule fetch_no_assert)
next
  assume p: "pads_to_max_length tokenizer"
    and e: "encode_sequences mytok hs tokenizer 1024 = r1 # rs1
             \<and> encode_sequences mytok ls tokenizer 1024 = r2 # rs2"
  from pads_encode[OF p, of mytok hs 1024] e show "length r1 = 1024"
    by (simp add: shape2_is_iff)
next
  assume p: "pads_to_max_length tokenizer"
    and e: "encode_sequences mytok hs tokenizer 1024 = r1 # rs1
             \<and> encode_sequences mytok ls tokenizer 1024 = r2 # rs2"
  from pads_encode[OF p, of mytok ls 1024] e show "length r2 = 1024"
    by (simp add: shape2_is_iff)
qed

theorem token_length_assertion_witness:
  "fetch_steering_vector toy_mytok toy_files ''fasta'' toy_model ragged_tokenizer
       None None 300 (3072 - 6) None (Some ''high.fa'') (Some ''low.fa'')
     = ([ParseFasta ''high.fa'', ParseFasta ''low.fa'', ModelEval],
        Inl (AssertionError ''top_seqs.size(1) == low_seqs.size(1)''))
   \<and> snd (fetch_steering_vector toy_mytok toy_files ''fasta'' toy_model toy_tokenizer
       None None 300 (3072 - 6) None (Some ''high.fa'') (Some ''low.fa''))
     \<noteq> Inl (AssertionError ''top_seqs.size(1) == low_seqs.size(1)'')
   \<and> length (hd (encode_sequences toy_mytok [''AUGGCC''] toy_tokenizer 1024)) = 1024"
proof -
  have e1: "encode_sequences toy_mytok [''AUGGCC''] ragged_tokenizer 1024 = [1, 1, 1] # []"
    and e2: "encode_sequences toy_mytok [''AU''] ragged_tokenizer 1024 = [1, 1] # []"
    by (simp_all add: encode_sequences_def toy_mytok_def ragged_tokenizer_def)
  have f: "lower ''fasta'' = ''fasta''" by (simp add: lower_names)
  have files: "toy_files ''high.fa'' = Some [''AUGGCC'']" "toy_files ''low.fa'' = Some [''AU'']"
    by (simp_all add: toy_files_def)
  have t1: "encode_sequences toy_mytok [''AUGGCC''] toy_tokenizer 1024
              = hd (encode_sequences toy_mytok [''AUGGCC''] toy_tokenizer 1024) # []"
    and t2: "encode_sequences toy_mytok [''AU''] toy_tokenizer 1024
              = hd (encode_sequences toy_mytok [''AU''] toy_tokenizer 1024) # []"
    by (simp_all add: encode_sequences_def toy_tokenizer_def)
  have a: "fetch_steering_vector toy_mytok toy_files ''fasta'' toy_model ragged_tokenizer
       None None 300 (3072 - 6) None (Some ''high.fa'') (Some ''low.fa'')
     = ([ParseFasta ''high.fa'', ParseFasta ''low.fa'', ModelEval],
        Inl (AssertionError ''top_seqs.size(1) == low_seqs.size(1)''))"
    using token_length_assertion[THEN conjunct1, rule_format, of "''fasta''" toy_files
        "''high.fa''" "[''AUGGCC'']" "''low.fa''" "[''AU'']" toy_mytok ragged_tokenizer
        "[1, 1, 1]" "[]" "[1, 1]" "[]" toy_model None None 300 "3072 - 6" None]
      f files e1 e2 by simp
  have b: "snd (fetch_steering_vector toy_mytok toy_files ''fasta'' toy_model toy_tokenizer
       None None 300 (3072 - 6) None (Some ''high.fa'') (Some ''low.fa''))
     \<noteq> Inl (AssertionError ''top_seqs.size(1) == low_seqs.size(1)'')"
    and c: "length (hd (encode_sequences toy_mytok [''AUGGCC''] toy_tokenizer 1024)) = 1024"
    using token_length_assertion[THEN conjunct2, rule_format, OF toy_pads,
        where mytok = toy_mytok and hs = "[''AUGGCC'']" and ls = "[''AU'']"
          and ?r1.0 = "hd (encode_sequences toy_mytok [''AUGGCC''] toy_tokenizer 1024)"
          and ?rs1.0 = "[]"
          and ?r2.0 = "hd (encode_sequences toy_mytok [''AU''] toy_tokenizer 1024)"
          and ?rs2.0 = "[]"] t1 t2
    by blast+
  from a b c show ?thesis by blast
qed

subsection \<open>C9: the score-table modes\<close>

text \<open>
  C9. Every call in the mode \<open>mfe\<close> or \<open>cai\<close> with a percentage, and every call in the mode
  \<open>mfe_cai\<close> with a coefficient, ends in the \<open>UnboundLocalError\<close> for \<open>df\<close> with no event
  recorded; and a call that returns an array is a call in FASTA mode.
\<close>

theorem table_modes_unbound_df:
  "(((lower data_type = ''mfe'' \<or> lower data_type = ''cai'') \<and> percent \<noteq> None
     \<or> lower data_type = ''mfe_cai'' \<and> lam \<noteq> None) \<longrightarrow>
     fetch_steering_vector mytok fs data_type model tokenizer sequences percent
       min_seq_len max_seq_len lam high_fa_path low_fa_path
       = ([], Inl (UnboundLocalError ''df'')))
   \<and> (snd (fetch_steering_vector mytok fs data_type model tokenizer sequences percent
             min_seq_len max_seq_len lam high_fa_path low_fa_path) = Inr v
        \<longrightarrow> lower data_type = ''fasta'')"
proof (intro conjI impI)
  assume "(lower data_type = ''mfe'' \<or> lower data_type = ''cai'') \<and> percent \<noteq> None
     \<or> lower data_type = ''mfe_cai'' \<and> lam \<noteq> None"
  then show "fetch_steering_vector mytok fs data_type model tokenizer sequences percent
       min_seq_len max_seq_len lam high_fa_path low_fa_path
       = ([], Inl (UnboundLocalError ''df''))"
    by (auto simp: percent_modes_unbound mfe_cai_unbound)
next
  assume "snd (fetch_steering_vector mytok fs data_type model tokenizer sequences percent
             min_seq_len max_seq_len lam high_fa_path low_fa_path) = Inr v"
  then show "lower data_type = ''fasta''" by (rule returns_only_fasta)
qed

theorem table_modes_unbound_df_witness:
  "fetch_steering_vector toy_mytok toy_files ''CAI'' toy_model toy_tokenizer
       (Some toy_sequences) (Some (1 / 2)) 300 (3072 - 6) None None None
     = ([], Inl (UnboundLocalError ''df''))
   \<and> fetch_steering_vector toy_mytok toy_files ''mfe_cai'' toy_model toy_tokenizer
       (Some toy_sequences) None 300 (3072 - 6) (Some 2) None None
     = ([], Inl (UnboundLocalError ''df''))
   \<and> (\<exists>v. snd (fetch_steering_vector toy_mytok toy_files ''FASTA'' toy_model toy_tokenizer
           None None 300 (3072 - 6) None (Some ''high.fa'') (Some ''low.fa'')) = Inr v)
   \<and> lower ''FASTA'' = ''fasta''"
proof -
  have l: "lower ''CAI'' = ''cai''" "lower ''mfe_cai'' = ''mfe_cai''" "lower ''FASTA'' = ''fasta''"
    by (simp_all add: lower_def lower_char_def)
  have a: "fetch_steering_vector toy_mytok toy_files ''CAI'' toy_model toy_tokenizer
       (Some toy_sequences) (Some (1 / 2)) 300 (3072 - 6) None None None
     = ([], Inl (UnboundLocalError ''df''))"
    using table_modes_unbound_df[THEN conjunct1, rule_format, of "''CAI''" "Some (1 / 2)"] l
    by simp
  have b: "fetch_steering_vector toy_mytok toy_files ''mfe_cai'' toy_model toy_tokenizer
       (Some toy_sequences) None 300 (3072 - 6) (Some 2) None None
     = ([], Inl (UnboundLocalError ''df''))"
    using table_modes_unbound_df[THEN conjunct1, rule_format, of "''mfe_cai''" None "Some 2"] l
    by simp
  from toy_returns[OF l(3)] obtain v where
    v: "snd (fetch_steering_vector toy_mytok toy_files ''FASTA'' toy_model toy_tokenizer
           None None 300 (3072 - 6) None (Some ''high.fa'') (Some ''low.fa'')) = Inr v"
    by blast
  from table_modes_unbound_df[THEN conjunct2, rule_format, OF v] have "lower ''FASTA'' = ''fasta''" .
  with a b v show ?thesis by blast
qed

subsection \<open>C10: the script run as a program\<close>

text \<open>
  C10. Whatever the command line and the outside world, the block under
  \<^verbatim>\<open>if __name__ == "__main__"\<close> creates the parser and then fails with the \<open>NameError\<close>
  for \<open>model_path\<close>, the default of the first argument: no argument is added, nothing is
  parsed, no model is loaded, no vector computed and nothing saved.
\<close>

theorem main_block_name_error:
  "main_block w argv = ([CreateParser], Inl (NameError ''model_path''))"
  unfolding main_block_def
  by (simp add: load_model_path emit_def cong: bindE_weak_cong)

end
